theory Spec2Isabelle
  imports Main
begin

unbundle bit_operations_syntax

section \<open>plog: a leveled text logger\<close>

text \<open>
  A shallow embedding of \<^verbatim>\<open>plog.go\<close>. Go's \<^verbatim>\<open>int\<close> is modelled as \<^typ>\<open>int\<close>: the
  package only compares levels and takes the bitwise AND of masks, and both agree with the
  machine operations on every machine integer. A string is a list of bytes. The mutex
  \<^verbatim>\<open>mu\<close> is left out: the model is of one call at a time.
\<close>

subsection \<open>Constants\<close>

definition RequireTimestamp :: int where "RequireTimestamp = 1"
definition RequireLevel :: int where "RequireLevel = 2"
definition RequireCaller :: int where "RequireCaller = 4"
definition RequireAll :: int where
  "RequireAll = RequireCaller OR RequireLevel OR RequireTimestamp"

definition LevelDebug :: int where "LevelDebug = 0"
definition LevelInfo :: int where "LevelInfo = 1"
definition LevelWarn :: int where "LevelWarn = 2"
definition LevelError :: int where "LevelError = 3"
definition LevelFatal :: int where "LevelFatal = 4"

definition levelRange :: "int \<Rightarrow> bool" where
  "levelRange lvl \<longleftrightarrow> lvl \<ge> 0 \<and> lvl \<le> LevelFatal"

definition ESC :: char where "ESC = CHR 0x1B"
definition newline :: char where "newline = CHR 0x0A"

definition colorReset :: string where "colorReset = ESC # ''[0m''"
definition colorBlue :: string where "colorBlue = ESC # ''[34m''"
definition colorGreen :: string where "colorGreen = ESC # ''[32m''"
definition colorYellow :: string where "colorYellow = ESC # ''[33m''"
definition colorRed :: string where "colorRed = ESC # ''[31m''"
definition colorBoldRed :: string where "colorBoldRed = ESC # ''[1;31m''"

subsection \<open>Errors, writers and the logger\<close>

text \<open>An error made by \<^verbatim>\<open>fmt.Errorf\<close> carries its message; \<^verbatim>\<open>nil\<close> is \<^const>\<open>None\<close>.\<close>

datatype error = Errorf string

text \<open>
  An \<^verbatim>\<open>io.Writer\<close> is its \<^verbatim>\<open>Write\<close> method: from the bytes and the state of the sink
  to the pair \<^verbatim>\<open>(n, err)\<close> and the state of the sink afterwards.
\<close>

type_synonym 'w Writer = "string \<Rightarrow> 'w \<Rightarrow> (int \<times> error option) \<times> 'w"

record 'w Logger =
  level :: int
  output_w :: "'w Writer"
  require :: int
  enabled :: bool
  colored :: bool

definition NewLogger :: "int \<Rightarrow> 'w Writer \<Rightarrow> int \<Rightarrow> bool \<Rightarrow> error + 'w Logger" where
  "NewLogger lvl out outputRequirements containAnsi =
     (if levelRange lvl
      then Inr \<lparr>level = lvl, output_w = out, require = outputRequirements,
                enabled = True, colored = containAnsi\<rparr>
      else Inl (Errorf ''level value is out of range''))"

text \<open>A method on \<^verbatim>\<open>*Logger\<close> returns its result and the logger after the call.\<close>

definition SetLevel :: "'w Logger \<Rightarrow> int \<Rightarrow> error option \<times> 'w Logger" where
  "SetLevel l lvl =
     (if levelRange lvl then (Some (Errorf ''level value is out of range''), l)
      else (None, l\<lparr>level := lvl\<rparr>))"

definition SetWriter :: "'w Logger \<Rightarrow> 'w Writer \<Rightarrow> 'w Logger" where
  "SetWriter l out = l\<lparr>output_w := out\<rparr>"

definition SetRequirements :: "'w Logger \<Rightarrow> int \<Rightarrow> 'w Logger" where
  "SetRequirements l outputRequirements = l\<lparr>require := outputRequirements\<rparr>"

definition SetActivity :: "'w Logger \<Rightarrow> bool \<Rightarrow> 'w Logger" where
  "SetActivity l en = l\<lparr>enabled := en\<rparr>"

definition SetColoring :: "'w Logger \<Rightarrow> bool \<Rightarrow> 'w Logger" where
  "SetColoring l containAnsi = l\<lparr>colored := containAnsi\<rparr>"

subsection \<open>Level labels\<close>

definition getColoredLevel :: "int \<Rightarrow> string" where
  "getColoredLevel lvl =
     (if lvl = LevelDebug then colorBlue @ ''DEBUG'' @ colorReset
      else if lvl = LevelInfo then colorGreen @ ''INFO'' @ colorReset
      else if lvl = LevelWarn then colorYellow @ ''WARN'' @ colorReset
      else if lvl = LevelError then colorRed @ ''ERROR'' @ colorReset
      else if lvl = LevelFatal then colorBoldRed @ ''FATAL'' @ colorReset
      else ''INVALID'')"

definition getRegularLevel :: "int \<Rightarrow> string" where
  "getRegularLevel lvl =
     (if lvl = LevelDebug then ''DEBUG''
      else if lvl = LevelInfo then ''INFO''
      else if lvl = LevelWarn then ''WARN''
      else if lvl = LevelError then ''ERROR''
      else if lvl = LevelFatal then ''FATAL''
      else ''INVALID'')"

subsection \<open>The formatting library\<close>

text \<open>
  Modelled from the spec: \<^verbatim>\<open>fmt.Sprintf\<close> and \<^verbatim>\<open>time.Format\<close> belong to Go's standard
  library and are not in the repository. The spec asks for "standard positional
  format-specifier semantics (numeric, string, generic verbs)" and for a timestamp "in a
  fixed human-readable date-time format (\<^verbatim>\<open>YYYY-MM-DD HH:MM:SS\<close>)". The model covers
  arguments that are integers or strings and the directives \<^verbatim>\<open>%d\<close>, \<^verbatim>\<open>%s\<close>, \<^verbatim>\<open>%v\<close> and
  \<^verbatim>\<open>%%\<close> without flags, width or precision, with the library's texts for a missing
  argument, a surplus argument, a missing verb and a verb that does not fit its argument.
\<close>

datatype arg = AInt int | AStr string

definition digit_char :: "nat \<Rightarrow> char" where
  "digit_char d = char_of (of_char (CHR ''0'') + d)"

fun digits_of :: "nat \<Rightarrow> string" where
  "digits_of n = (if n < 10 then [digit_char n] else digits_of (n div 10) @ [digit_char (n mod 10)])"

declare digits_of.simps [simp del]

definition itoa :: "int \<Rightarrow> string" where
  "itoa i = (if i < 0 then CHR ''-'' # digits_of (nat (- i)) else digits_of (nat i))"

definition typeName :: "arg \<Rightarrow> string" where
  "typeName a = (case a of AInt i \<Rightarrow> ''int'' | AStr s \<Rightarrow> ''string'')"

definition printValue :: "arg \<Rightarrow> string" where
  "printValue a = (case a of AInt i \<Rightarrow> itoa i | AStr s \<Rightarrow> s)"

definition badVerb :: "arg \<Rightarrow> char \<Rightarrow> string" where
  "badVerb a v = ''%!'' @ [v] @ ''('' @ typeName a @ ''='' @ printValue a @ '')''"

definition printArg :: "arg \<Rightarrow> char \<Rightarrow> string" where
  "printArg a v =
     (case a of
        AInt i \<Rightarrow> if v = CHR ''d'' \<or> v = CHR ''v'' then itoa i else badVerb a v
      | AStr s \<Rightarrow> if v = CHR ''s'' \<or> v = CHR ''v'' then s else badVerb a v)"

fun extraList :: "arg list \<Rightarrow> string" where
  "extraList [] = []"
| "extraList [a] = typeName a @ ''='' @ printValue a"
| "extraList (a # b # as) = typeName a @ ''='' @ printValue a @ '', '' @ extraList (b # as)"

definition extraArgs :: "arg list \<Rightarrow> string" where
  "extraArgs as = (if as = [] then [] else ''%!(EXTRA '' @ extraList as @ '')'')"

fun doPrintf :: "string \<Rightarrow> arg list \<Rightarrow> string" where
  "doPrintf [] as = extraArgs as"
| "doPrintf [c] as = (if c = CHR ''%'' then ''%!(NOVERB)'' @ extraArgs as else c # extraArgs as)"
| "doPrintf (c # v # fs) as =
     (if c \<noteq> CHR ''%'' then c # doPrintf (v # fs) as
      else if v = CHR ''%'' then CHR ''%'' # doPrintf fs as
      else (case as of
              [] \<Rightarrow> ''%!'' @ [v] @ ''(MISSING)'' @ doPrintf fs []
            | a # as' \<Rightarrow> printArg a v @ doPrintf fs as'))"

definition Sprintf :: "string \<Rightarrow> arg list \<Rightarrow> string" where
  "Sprintf format attrs = doPrintf format attrs"

text \<open>
  \<^verbatim>\<open>fmt.Fprintf\<close> formats into a buffer and hands the buffer to the writer in one
  \<^verbatim>\<open>Write\<close>, whose result it returns. \<^verbatim>\<open>fmt.Fprintln\<close> with no operand writes a
  newline.
\<close>

definition Fprintf ::
  "'w Writer \<Rightarrow> string \<Rightarrow> arg list \<Rightarrow> 'w \<Rightarrow> (int \<times> error option) \<times> 'w" where
  "Fprintf out format attrs \<sigma> = out (Sprintf format attrs) \<sigma>"

definition Fprintln :: "'w Writer \<Rightarrow> 'w \<Rightarrow> (int \<times> error option) \<times> 'w" where
  "Fprintln out \<sigma> = out [newline] \<sigma>"

text \<open>
  A point of time as its calendar fields. The layout \<^verbatim>\<open>time.DateTime\<close> is
  \<^verbatim>\<open>2006-01-02 15:04:05\<close>: the year padded with zeros to four digits, every other field
  to two.
\<close>

record Time =
  Year :: int
  Month :: int
  Day :: int
  Hour :: int
  Minute :: int
  Second :: int

definition appendInt :: "int \<Rightarrow> nat \<Rightarrow> string" where
  "appendInt x width =
     (let ds = digits_of (nat \<bar>x\<bar>)
      in (if x < 0 then ''-'' else []) @ replicate (width - length ds) (CHR ''0'') @ ds)"

definition Format_DateTime :: "Time \<Rightarrow> string" where
  "Format_DateTime t =
     appendInt (Year t) 4 @ ''-'' @ appendInt (Month t) 2 @ ''-'' @ appendInt (Day t) 2 @ '' '' @
     appendInt (Hour t) 2 @ '':'' @ appendInt (Minute t) 2 @ '':'' @ appendInt (Second t) 2"

subsection \<open>The environment of a call\<close>

text \<open>
  What a call reads from the runtime: the wall clock (\<^verbatim>\<open>time.Now\<close>) and the call stack
  (\<^verbatim>\<open>runtime.Caller\<close> with \<^verbatim>\<open>runtime.FuncForPC\<close>: the file, the line and the function
  name of the frame \<^verbatim>\<open>skip\<close> levels up, when there is one).
\<close>

record env =
  Now :: Time
  Caller :: "int \<Rightarrow> (string \<times> int \<times> string) option"

definition getTimestamp :: "env \<Rightarrow> string" where
  "getTimestamp e = Format_DateTime (Now e)"

definition getCall :: "env \<Rightarrow> int \<Rightarrow> string" where
  "getCall e skip =
     (case Caller e skip of
        None \<Rightarrow> ''unknown''
      | Some (file, line, funcName) \<Rightarrow>
          Sprintf ''%s:%d (%s)'' [AStr file, AInt line, AStr funcName])"

subsection \<open>Emission\<close>

text \<open>
  The metadata prefix that \<^verbatim>\<open>print\<close> builds in its variable \<^verbatim>\<open>stats\<close>, in the order of
  the source: the separator, then the caller, the timestamp and the level, each put in
  front of what is there.
\<close>

definition stats :: "env \<Rightarrow> 'w Logger \<Rightarrow> int \<Rightarrow> string" where
  "stats e l lvl =
     (if require l AND RequireAll \<noteq> 0 then
        let s0 = ''-'';
            s1 = (if require l AND RequireCaller \<noteq> 0
                  then Sprintf ''%s %s'' [AStr (getCall e 3), AStr s0] else s0);
            s2 = (if require l AND RequireTimestamp \<noteq> 0
                  then Sprintf ''[%s] %s'' [AStr (getTimestamp e), AStr s1] else s1);
            s3 = (if require l AND RequireLevel \<noteq> 0
                  then (if colored l
                        then Sprintf ''[%s] %s'' [AStr (getColoredLevel lvl), AStr s2]
                        else Sprintf ''[%s] %s'' [AStr (getRegularLevel lvl), AStr s2])
                  else s2)
        in s3
      else [])"

text \<open>
  \<^verbatim>\<open>print\<close> returns its error, the logger and the state of the sink after the call. What
  \<^verbatim>\<open>Fprintf\<close> returns is dropped, as in the source.
\<close>

definition print ::
  "env \<Rightarrow> 'w Logger \<Rightarrow> int \<Rightarrow> string \<Rightarrow> arg list \<Rightarrow> 'w \<Rightarrow> error option \<times> 'w Logger \<times> 'w" where
  "print e l lvl format attrs \<sigma> =
     (if \<not> enabled l then (Some (Errorf ''logger is disabled''), l, \<sigma>)
      else if level l > lvl then (Some (Errorf ''logger ingores given level logs''), l, \<sigma>)
      else
        let r = Fprintf (output_w l) (''%s %s'' @ [newline])
                  [AStr (stats e l lvl), AStr (Sprintf format attrs)] \<sigma>
        in (None, l, snd r))"

definition Log ::
  "env \<Rightarrow> 'w Logger \<Rightarrow> int \<Rightarrow> string \<Rightarrow> arg list \<Rightarrow> 'w \<Rightarrow> error option \<times> 'w Logger \<times> 'w" where
  "Log e l lvl format attrs \<sigma> = print e l lvl format attrs \<sigma>"

definition Debug ::
  "env \<Rightarrow> 'w Logger \<Rightarrow> string \<Rightarrow> arg list \<Rightarrow> 'w \<Rightarrow> error option \<times> 'w Logger \<times> 'w" where
  "Debug e l format attrs \<sigma> = print e l LevelDebug format attrs \<sigma>"

definition Info ::
  "env \<Rightarrow> 'w Logger \<Rightarrow> string \<Rightarrow> arg list \<Rightarrow> 'w \<Rightarrow> error option \<times> 'w Logger \<times> 'w" where
  "Info e l format attrs \<sigma> = print e l LevelInfo format attrs \<sigma>"

definition Warn ::
  "env \<Rightarrow> 'w Logger \<Rightarrow> string \<Rightarrow> arg list \<Rightarrow> 'w \<Rightarrow> error option \<times> 'w Logger \<times> 'w" where
  "Warn e l format attrs \<sigma> = print e l LevelWarn format attrs \<sigma>"

definition Error ::
  "env \<Rightarrow> 'w Logger \<Rightarrow> string \<Rightarrow> arg list \<Rightarrow> 'w \<Rightarrow> error option \<times> 'w Logger \<times> 'w" where
  "Error e l format attrs \<sigma> = print e l LevelError format attrs \<sigma>"

text \<open>
  \<^verbatim>\<open>os.Exit(code)\<close> ends the process: the outcome of a call that ends in it is the exit
  status, with the logger and the sink as they are left.
\<close>

datatype 'w exited = Exit int "'w Logger" 'w

definition Fatal :: "env \<Rightarrow> 'w Logger \<Rightarrow> string \<Rightarrow> arg list \<Rightarrow> 'w \<Rightarrow> 'w exited" where
  "Fatal e l format attrs \<sigma> =
     (let r = print e l LevelFatal format attrs \<sigma>
      in Exit 0 (fst (snd r)) (snd (snd r)))"

definition Line :: "'w Logger \<Rightarrow> 'w \<Rightarrow> 'w Logger \<times> 'w" where
  "Line l \<sigma> = (l, snd (Fprintln (output_w l) \<sigma>))"

subsection \<open>Two sinks\<close>

text \<open>
  A buffer that appends what it is given (as \<^verbatim>\<open>bytes.Buffer\<close> does) and a closed sink that
  stores nothing and reports an error on every write.
\<close>

definition bufferWrite :: "string Writer" where
  "bufferWrite s \<sigma> = ((int (length s), None), \<sigma> @ s)"

definition closedWrite :: "string Writer" where
  "closedWrite s \<sigma> = ((0, Some (Errorf ''file already closed'')), \<sigma>)"

subsection \<open>Line patterns\<close>

text \<open>
  The anchored patterns the examples use have no repetition or choice other than counted
  digits: such a pattern is a list of atoms, each matching one byte, \<^verbatim>\<open>\d\<close> an ASCII
  digit.
\<close>

datatype atom = Lit char | Digit

definition is_digit :: "char \<Rightarrow> bool" where
  "is_digit c \<longleftrightarrow> (48::nat) \<le> of_char c \<and> of_char c \<le> (57::nat)"

fun atom_matches :: "atom \<Rightarrow> char \<Rightarrow> bool" where
  "atom_matches (Lit a) c = (a = c)"
| "atom_matches Digit c = is_digit c"

definition matches :: "atom list \<Rightarrow> string \<Rightarrow> bool" where
  "matches p s = list_all2 atom_matches p s"

text \<open>\<^verbatim>\<open>\d{4}-\d{2}-\d{2} \d{2}:\d{2}:\d{2}\<close>\<close>

definition datetime_pattern :: "atom list" where
  "datetime_pattern =
     replicate 4 Digit @ [Lit (CHR ''-'')] @ replicate 2 Digit @ [Lit (CHR ''-'')] @
     replicate 2 Digit @ [Lit (CHR '' '')] @ replicate 2 Digit @ [Lit (CHR '':'')] @
     replicate 2 Digit @ [Lit (CHR '':'')] @ replicate 2 Digit"

text \<open>\<^verbatim>\<open>^\[INFO\] \[\d{4}-\d{2}-\d{2} \d{2}:\d{2}:\d{2}\] - value=42$\<close>\<close>

definition info_line_pattern :: "atom list" where
  "info_line_pattern = map Lit ''[INFO] ['' @ datetime_pattern @ map Lit ''] - value=42''"

text \<open>
  The ranges that the fields of a \<^verbatim>\<open>time.Time\<close> other than the year always lie in.
\<close>

definition valid_time :: "Time \<Rightarrow> bool" where
  "valid_time t \<longleftrightarrow>
     1 \<le> Month t \<and> Month t \<le> 12 \<and> 1 \<le> Day t \<and> Day t \<le> 31 \<and>
     0 \<le> Hour t \<and> Hour t \<le> 23 \<and> 0 \<le> Minute t \<and> Minute t \<le> 59 \<and>
     0 \<le> Second t \<and> Second t \<le> 59"

subsection \<open>Example values\<close>

definition env0 :: env where
  "env0 = \<lparr>Now = \<lparr>Year = 2024, Month = 3, Day = 9, Hour = 7, Minute = 5, Second = 0\<rparr>,
           Caller = (\<lambda>skip. if skip = 3 then Some (''main.go'', 12, ''main.main'') else None)\<rparr>"

definition bufferLogger :: "int \<Rightarrow> int \<Rightarrow> bool \<Rightarrow> string Logger" where
  "bufferLogger lvl m c =
     \<lparr>level = lvl, output_w = bufferWrite, require = m, enabled = True, colored = c\<rparr>"

definition closedLogger :: "string Logger" where
  "closedLogger =
     \<lparr>level = LevelInfo, output_w = closedWrite, require = 0, enabled = True, colored = False\<rparr>"

section \<open>Auxiliary facts\<close>

subsection \<open>Masks, formats and the two paths of print\<close>

lemma RequireAll_bits:
  "m AND RequireAll = 0 \<longleftrightarrow>
     m AND RequireTimestamp = 0 \<and> m AND RequireLevel = 0 \<and> m AND RequireCaller = 0"
  unfolding RequireAll_def by (auto simp add: bit.conj_disj_distrib or_eq_0_iff)

lemma Sprintf_bracket: "Sprintf ''[%s] %s'' [AStr a, AStr b] = ''['' @ a @ ''] '' @ b"
  by (simp add: Sprintf_def printArg_def extraArgs_def)

lemma Sprintf_pair: "Sprintf ''%s %s'' [AStr a, AStr b] = a @ '' '' @ b"
  by (simp add: Sprintf_def printArg_def extraArgs_def)

lemma Sprintf_line:
  "Sprintf (''%s %s'' @ [newline]) [AStr a, AStr b] = a @ '' '' @ b @ [newline]"
  by (simp add: Sprintf_def printArg_def extraArgs_def newline_def)

lemma print_passes:
  assumes "enabled l" and "level l \<le> lvl"
  shows "print e l lvl format attrs \<sigma> =
           (None, l, snd (output_w l (stats e l lvl @ '' '' @ Sprintf format attrs @ [newline]) \<sigma>))"
  unfolding print_def Fprintf_def Sprintf_line using assms by simp

lemma stats_layout:
  assumes "require l AND RequireAll \<noteq> 0"
  shows "stats e l lvl =
           (if require l AND RequireLevel \<noteq> 0
            then ''['' @ (if colored l then getColoredLevel lvl else getRegularLevel lvl) @ ''] ''
            else []) @
           (if require l AND RequireTimestamp \<noteq> 0 then ''['' @ getTimestamp e @ ''] '' else []) @
           (if require l AND RequireCaller \<noteq> 0 then getCall e 3 @ '' '' else []) @ ''-''"
  using assms by (simp add: stats_def Sprintf_bracket Sprintf_pair)

lemma stats_empty: "require l AND RequireAll = 0 \<Longrightarrow> stats e l lvl = []"
  by (simp add: stats_def)

lemma bufferLogger_fields [simp]:
  "level (bufferLogger lvl m c) = lvl" "output_w (bufferLogger lvl m c) = bufferWrite"
  "require (bufferLogger lvl m c) = m" "enabled (bufferLogger lvl m c)"
  "colored (bufferLogger lvl m c) = c"
  by (simp_all add: bufferLogger_def)

lemma closedLogger_fields [simp]:
  "level closedLogger = LevelInfo" "output_w closedLogger = closedWrite"
  "require closedLogger = 0" "enabled closedLogger" "colored closedLogger = False"
  by (simp_all add: closedLogger_def)

lemma level_bit_in_all: "m AND RequireLevel \<noteq> 0 \<Longrightarrow> m AND RequireAll \<noteq> 0"
  by (simp add: RequireAll_bits)

lemma invalid_labels:
  assumes "lvl < 0 \<or> 4 < lvl"
  shows "getColoredLevel lvl = ''INVALID''" and "getRegularLevel lvl = ''INVALID''"
  using assms
  by (auto simp add: getColoredLevel_def getRegularLevel_def LevelDebug_def LevelInfo_def
      LevelWarn_def LevelError_def LevelFatal_def)

lemma level_timestamp_mask:
  "(RequireLevel OR RequireTimestamp) AND RequireAll \<noteq> 0"
  "(RequireLevel OR RequireTimestamp) AND RequireLevel \<noteq> 0"
  "(RequireLevel OR RequireTimestamp) AND RequireTimestamp \<noteq> 0"
  "(RequireLevel OR RequireTimestamp) AND RequireCaller = 0"
  by (simp_all add: RequireAll_def RequireLevel_def RequireTimestamp_def RequireCaller_def)

lemma Sprintf_value_42: "Sprintf ''value=%d'' [AInt 42] = ''value=42''"
  by code_simp

subsection \<open>Digits and patterns\<close>

lemma is_digit_digit_char: "d < 10 \<Longrightarrow> is_digit (digit_char d)"
  by (simp add: is_digit_def digit_char_def)

lemma digits_of_all_digits: "list_all is_digit (digits_of n)"
proof (induction n rule: digits_of.induct)
  case (1 n)
  show ?case
  proof (cases "n < 10")
    case True
    then show ?thesis by (subst digits_of.simps) (simp add: is_digit_digit_char)
  next
    case False
    with 1 have "list_all is_digit (digits_of (n div 10))" by simp
    with False show ?thesis by (subst digits_of.simps) (simp add: is_digit_digit_char)
  qed
qed

lemma digits_of_length: "n < 10 ^ Suc k \<Longrightarrow> length (digits_of n) \<le> Suc k"
proof (induction k arbitrary: n)
  case 0
  then show ?case by (subst digits_of.simps) simp
next
  case (Suc k)
  show ?case
  proof (cases "n < 10")
    case True
    then show ?thesis by (subst digits_of.simps) simp
  next
    case False
    from Suc.prems have "n div 10 < 10 ^ Suc k" by (simp add: less_mult_imp_div_less)
    then have "length (digits_of (n div 10)) \<le> Suc k" by (rule Suc.IH)
    with False show ?thesis by (subst digits_of.simps) simp
  qed
qed

lemma matches_digits: "matches (replicate w Digit) s \<longleftrightarrow> length s = w \<and> list_all is_digit s"
  unfolding matches_def
proof (induction s arbitrary: w)
  case Nil
  then show ?case by (cases w) simp_all
next
  case (Cons c s)
  then show ?case by (cases w) auto
qed

lemma appendInt_matches:
  assumes "0 \<le> x" and "x < 10 ^ Suc k"
  shows "matches (replicate (Suc k) Digit) (appendInt x (Suc k))"
proof -
  from assms have "nat \<bar>x\<bar> < 10 ^ Suc k" by (simp add: nat_less_iff)
  then have len: "length (digits_of (nat \<bar>x\<bar>)) \<le> Suc k" by (rule digits_of_length)
  have "list_all is_digit (replicate (Suc k - length (digits_of (nat \<bar>x\<bar>))) (CHR ''0''))"
    by (simp add: list_all_iff is_digit_def)
  with len assms(1) show ?thesis
    by (simp add: matches_digits appendInt_def Let_def digits_of_all_digits del: replicate_Suc replicate.simps)
qed

lemma matches_append: "matches p s \<Longrightarrow> matches q t \<Longrightarrow> matches (p @ q) (s @ t)"
  by (simp add: matches_def list_all2_appendI)

lemma matches_Lit: "matches (map Lit s) s"
  by (induction s) (simp_all add: matches_def)

lemma Format_DateTime_matches:
  assumes "valid_time t" and "0 \<le> Year t" and "Year t \<le> 9999"
  shows "matches datetime_pattern (Format_DateTime t)"
proof -
  have y: "matches (replicate 4 Digit) (appendInt (Year t) 4)"
    using assms(2,3) appendInt_matches [of "Year t" 3] by (simp add: numeral_eq_Suc)
  have two: "matches (replicate 2 Digit) (appendInt x 2)" if "0 \<le> x" and "x \<le> 59" for x
    using that appendInt_matches [of x 1] by (simp add: numeral_eq_Suc)
  from assms(1) have m: "matches (replicate 2 Digit) (appendInt (Month t) 2)"
    and d: "matches (replicate 2 Digit) (appendInt (Day t) 2)"
    and h: "matches (replicate 2 Digit) (appendInt (Hour t) 2)"
    and mi: "matches (replicate 2 Digit) (appendInt (Minute t) 2)"
    and s: "matches (replicate 2 Digit) (appendInt (Second t) 2)"
    by (auto intro!: two simp add: valid_time_def)
  show ?thesis
    unfolding datetime_pattern_def Format_DateTime_def
    by (intro matches_append y m d h mi s) (simp_all add: matches_def)
qed

lemma matches_excludes:
  assumes "matches p s" and "\<And>a. a \<in> set p \<Longrightarrow> \<not> atom_matches a c"
  shows "c \<notin> set s"
  using assms unfolding matches_def
  by (induction p s rule: list_all2_induct) auto

lemma info_line_pattern_no_newline: "a \<in> set info_line_pattern \<Longrightarrow> \<not> atom_matches a newline"
  by (auto simp add: info_line_pattern_def datetime_pattern_def is_digit_def newline_def)

section \<open>The claims\<close>

text \<open>
  C7. \<^verbatim>\<open>NewLogger\<close> with a level from 0 to 4 returns, with no error, an enabled logger
  that carries the given level, sink, metadata mask and color mode; with a level outside
  0 to 4 it returns the error "level value is out of range" and no logger.
\<close>

theorem NewLogger_valid_or_invalid:
  "(0 \<le> lvl \<and> lvl \<le> 4 \<longrightarrow>
      NewLogger lvl out m c =
        Inr \<lparr>level = lvl, output_w = out, require = m, enabled = True, colored = c\<rparr>) \<and>
   (lvl < 0 \<or> 4 < lvl \<longrightarrow>
      NewLogger lvl out m c = Inl (Errorf ''level value is out of range''))"
  by (auto simp add: NewLogger_def levelRange_def LevelFatal_def)

theorem NewLogger_valid_or_invalid_witness:
  "NewLogger 3 bufferWrite 5 True =
     Inr \<lparr>level = 3, output_w = bufferWrite, require = 5, enabled = True, colored = True\<rparr> \<and>
   NewLogger 5 bufferWrite 5 True = Inl (Errorf ''level value is out of range'') \<and>
   NewLogger (- 1) bufferWrite 5 True = Inl (Errorf ''level value is out of range'')"
  using NewLogger_valid_or_invalid [of 3 bufferWrite 5 True]
    NewLogger_valid_or_invalid [of 5 bufferWrite 5 True]
    NewLogger_valid_or_invalid [of "- 1" bufferWrite 5 True]
  by simp

text \<open>
  C1. \<^verbatim>\<open>SetLevel\<close> is to reject a level outside 0 to 4 and leave the logger as it is, and
  to store a level from 0 to 4. The source tests \<^verbatim>\<open>levelRange(level)\<close> where its own
  comment ("in case of level being out of range, return error") and \<^verbatim>\<open>NewLogger\<close> call
  for the negation: on a logger at level Debug, \<^verbatim>\<open>SetLevel(LevelWarn)\<close> returns the error
  and changes nothing, while \<^verbatim>\<open>SetLevel(5)\<close> and \<^verbatim>\<open>SetLevel(-1)\<close> return no error and
  store the level.
\<close>

theorem SetLevel_inverted_check:
  "SetLevel (bufferLogger LevelDebug 0 False) LevelWarn =
     (Some (Errorf ''level value is out of range''), bufferLogger LevelDebug 0 False) \<and>
   SetLevel (bufferLogger LevelDebug 0 False) 5 = (None, bufferLogger 5 0 False) \<and>
   SetLevel (bufferLogger LevelDebug 0 False) (- 1) = (None, bufferLogger (- 1) 0 False)"
  by (simp add: SetLevel_def levelRange_def bufferLogger_def LevelDebug_def LevelWarn_def
      LevelFatal_def)

text \<open>
  C6. Every emission returns the error "logger is disabled" exactly when the logger is not
  enabled, whatever the levels are; on an enabled logger it returns the error "logger
  ingores given level logs" exactly when the level of the message is strictly below the
  minimum level. In both cases the sink and the logger are as before the call.
\<close>

theorem print_gates:
  "(fst (print e l lvl format attrs \<sigma>) = Some (Errorf ''logger is disabled'') \<longleftrightarrow> \<not> enabled l) \<and>
   (\<not> enabled l \<longrightarrow>
      print e l lvl format attrs \<sigma> = (Some (Errorf ''logger is disabled''), l, \<sigma>)) \<and>
   (enabled l \<longrightarrow>
      (fst (print e l lvl format attrs \<sigma>) = Some (Errorf ''logger ingores given level logs'')
         \<longleftrightarrow> lvl < level l)) \<and>
   (enabled l \<and> lvl < level l \<longrightarrow>
      print e l lvl format attrs \<sigma> =
        (Some (Errorf ''logger ingores given level logs''), l, \<sigma>))"
  by (simp add: print_def Let_def)

theorem print_gates_witness:
  "print env0 (SetActivity (bufferLogger LevelDebug 7 False) False) LevelFatal ''x'' [] ''old'' =
     (Some (Errorf ''logger is disabled''),
      SetActivity (bufferLogger LevelDebug 7 False) False, ''old'') \<and>
   print env0 (SetActivity (bufferLogger LevelFatal 7 False) False) LevelDebug ''x'' [] ''old'' =
     (Some (Errorf ''logger is disabled''),
      SetActivity (bufferLogger LevelFatal 7 False) False, ''old'') \<and>
   print env0 (bufferLogger LevelWarn 7 False) LevelInfo ''x'' [] ''old'' =
     (Some (Errorf ''logger ingores given level logs''), bufferLogger LevelWarn 7 False, ''old'') \<and>
   fst (print env0 (bufferLogger LevelWarn 7 False) LevelWarn ''x'' [] ''old'') \<noteq>
     Some (Errorf ''logger is disabled'') \<and>
   fst (print env0 (bufferLogger LevelWarn 7 False) LevelWarn ''x'' [] ''old'') \<noteq>
     Some (Errorf ''logger ingores given level logs'')"
  using print_gates [of env0 "SetActivity (bufferLogger LevelDebug 7 False) False" LevelFatal "''x''" "[]" "''old''"]
    print_gates [of env0 "SetActivity (bufferLogger LevelFatal 7 False) False" LevelDebug "''x''" "[]" "''old''"]
    print_gates [of env0 "bufferLogger LevelWarn 7 False" LevelInfo "''x''" "[]" "''old''"]
    print_gates [of env0 "bufferLogger LevelWarn 7 False" LevelWarn "''x''" "[]" "''old''"]
  by (simp add: SetActivity_def LevelWarn_def LevelInfo_def)

text \<open>
  C2, as claimed: an emission that passes both gates returns the error of the sink's write
  when the write fails. It does not: on a sink whose every write fails, \<^verbatim>\<open>Info\<close> on an
  enabled logger at level Info returns no error.
\<close>

theorem write_error_dropped_counterexample:
  "enabled closedLogger \<and> level closedLogger \<le> LevelInfo \<and>
   snd (fst (output_w closedLogger ('' hello'' @ [newline]) [])) =
     Some (Errorf ''file already closed'') \<and>
   Info env0 closedLogger ''hello'' [] [] = (None, closedLogger, [])"
  by (simp add: closedWrite_def Info_def print_def Fprintf_def)

text \<open>
  C2, amended: an emission that passes the enabled gate and the level gate returns no
  error, whether the write to the sink succeeds or fails; what the write returns is
  dropped.
\<close>

theorem print_returns_nil_after_gates:
  assumes "enabled l" and "level l \<le> lvl"
  shows "fst (print e l lvl format attrs \<sigma>) = None \<and>
         fst (Log e l lvl format attrs \<sigma>) = None"
  using assms by (simp add: Log_def print_passes)

theorem print_returns_nil_after_gates_witness:
  "enabled closedLogger \<and> level closedLogger \<le> LevelError \<and>
   snd (fst (output_w closedLogger
     (stats env0 closedLogger LevelError @ '' '' @ Sprintf ''disk %s'' [AStr ''full''] @ [newline]) []))
     \<noteq> None \<and>
   fst (print env0 closedLogger LevelError ''disk %s'' [AStr ''full''] []) = None \<and>
   fst (Log env0 closedLogger LevelError ''disk %s'' [AStr ''full''] []) = None"
proof -
  have g: "enabled closedLogger" "level closedLogger \<le> LevelError"
    by (simp_all add: closedLogger_def LevelInfo_def LevelError_def)
  show ?thesis
    using g print_returns_nil_after_gates [OF g, of env0 "''disk %s''" "[AStr ''full'']" "[]"]
    by (simp add: closedLogger_def closedWrite_def)
qed

text \<open>
  C3, as claimed: with none of the three metadata bits in the mask, the line written
  begins with the marker \<^verbatim>\<open>-\<close> and a space. It does not: with the mask 0 the line for the
  message \<^verbatim>\<open>hello\<close> is a space, \<^verbatim>\<open>hello\<close> and a newline.
\<close>

theorem no_metadata_marker_counterexample:
  "require (bufferLogger LevelInfo 0 False) AND RequireAll = 0 \<and>
   Info env0 (bufferLogger LevelInfo 0 False) ''hello'' [] [] =
     (None, bufferLogger LevelInfo 0 False, '' hello'' @ [newline]) \<and>
   take 2 (snd (snd (Info env0 (bufferLogger LevelInfo 0 False) ''hello'' [] []))) \<noteq> ''- ''"
  by (simp add: bufferLogger_def bufferWrite_def Info_def print_passes stats_empty Sprintf_def
      extraArgs_def)

text \<open>
  C3, amended: for every mask with none of the bits Timestamp, Level and Caller, an
  emission on an enabled logger at or above the minimum level writes a line that is one
  space, the formatted message and a newline, with no marker.
\<close>

theorem print_without_metadata:
  assumes "require l AND RequireTimestamp = 0" and "require l AND RequireLevel = 0"
    and "require l AND RequireCaller = 0" and "enabled l" and "level l \<le> lvl"
  shows "print e l lvl format attrs \<sigma> =
           (None, l, snd (output_w l ('' '' @ Sprintf format attrs @ [newline]) \<sigma>))"
proof -
  from assms(1-3) have "require l AND RequireAll = 0" by (simp add: RequireAll_bits)
  then have "stats e l lvl = []" by (rule stats_empty)
  with assms(4,5) show ?thesis by (simp add: print_passes)
qed

theorem print_without_metadata_witness:
  "print env0 (bufferLogger LevelDebug 8 True) LevelWarn ''n=%d'' [AInt 7] ''old'' =
     (None, bufferLogger LevelDebug 8 True, ''old n=7'' @ [newline])"
proof -
  have m: "require (bufferLogger LevelDebug 8 True) AND RequireTimestamp = 0"
    "require (bufferLogger LevelDebug 8 True) AND RequireLevel = 0"
    "require (bufferLogger LevelDebug 8 True) AND RequireCaller = 0"
    by (simp_all add: bufferLogger_def RequireTimestamp_def RequireLevel_def RequireCaller_def)
  have g: "enabled (bufferLogger LevelDebug 8 True)"
    "level (bufferLogger LevelDebug 8 True) \<le> LevelWarn"
    by (simp_all add: bufferLogger_def LevelDebug_def LevelWarn_def)
  have b: "Sprintf ''n=%d'' [AInt 7] = ''n=7''"
    by code_simp
  show ?thesis
    using print_without_metadata [OF m g, of env0 "''n=%d''" "[AInt 7]" "''old''"]
    by (simp add: b) (simp add: bufferLogger_def bufferWrite_def)
qed

text \<open>
  C4, as claimed: for valid levels with the level of the message at most the minimum level,
  the emission writes nothing and returns the level error. It does not when the two are
  equal: a logger made at level Info writes the line of an \<^verbatim>\<open>Info\<close> call and returns no
  error.
\<close>

theorem equal_level_not_filtered_counterexample:
  "levelRange LevelInfo \<and> LevelInfo \<le> LevelInfo \<and>
   NewLogger LevelInfo bufferWrite 0 False = Inr (bufferLogger LevelInfo 0 False) \<and>
   Info env0 (bufferLogger LevelInfo 0 False) ''x'' [] [] =
     (None, bufferLogger LevelInfo 0 False, '' x'' @ [newline])"
  by (simp add: NewLogger_def levelRange_def LevelInfo_def LevelFatal_def bufferLogger_def
      bufferWrite_def Info_def print_passes stats_empty Sprintf_def extraArgs_def)

text \<open>
  C4, amended: for valid levels with the level of the message strictly below the minimum
  level, a logger made by \<^verbatim>\<open>NewLogger\<close> with that minimum level writes nothing and returns
  the error "logger ingores given level logs", through \<^verbatim>\<open>Log\<close> and through the method
  named after the level.
\<close>

theorem strictly_lower_level_filtered:
  assumes "0 \<le> lo" and "lo < hi" and "hi \<le> 4" and "NewLogger hi out m c = Inr l"
  shows "Log e l lo format attrs \<sigma> =
           (Some (Errorf ''logger ingores given level logs''), l, \<sigma>) \<and>
         (lo = LevelDebug \<longrightarrow> Debug e l format attrs \<sigma> =
           (Some (Errorf ''logger ingores given level logs''), l, \<sigma>)) \<and>
         (lo = LevelInfo \<longrightarrow> Info e l format attrs \<sigma> =
           (Some (Errorf ''logger ingores given level logs''), l, \<sigma>)) \<and>
         (lo = LevelWarn \<longrightarrow> Warn e l format attrs \<sigma> =
           (Some (Errorf ''logger ingores given level logs''), l, \<sigma>)) \<and>
         (lo = LevelError \<longrightarrow> Error e l format attrs \<sigma> =
           (Some (Errorf ''logger ingores given level logs''), l, \<sigma>))"
proof -
  from assms(4) have "enabled l" and "level l = hi"
    by (auto simp add: NewLogger_def split: if_splits)
  with assms(2) have "print e l lo format attrs \<sigma> =
      (Some (Errorf ''logger ingores given level logs''), l, \<sigma>)"
    by (simp add: print_def)
  then show ?thesis by (auto simp add: Log_def Debug_def Info_def Warn_def Error_def)
qed

theorem strictly_lower_level_filtered_witness:
  "NewLogger LevelWarn bufferWrite 7 False = Inr (bufferLogger LevelWarn 7 False) \<and>
   Log env0 (bufferLogger LevelWarn 7 False) LevelInfo ''x'' [] ''old'' =
     (Some (Errorf ''logger ingores given level logs''), bufferLogger LevelWarn 7 False, ''old'') \<and>
   Info env0 (bufferLogger LevelWarn 7 False) ''x'' [] ''old'' =
     (Some (Errorf ''logger ingores given level logs''), bufferLogger LevelWarn 7 False, ''old'') \<and>
   Debug env0 (bufferLogger LevelWarn 7 False) ''x'' [] ''old'' =
     (Some (Errorf ''logger ingores given level logs''), bufferLogger LevelWarn 7 False, ''old'') \<and>
   NewLogger LevelFatal bufferWrite 7 False = Inr (bufferLogger LevelFatal 7 False) \<and>
   Warn env0 (bufferLogger LevelFatal 7 False) ''x'' [] ''old'' =
     (Some (Errorf ''logger ingores given level logs''), bufferLogger LevelFatal 7 False, ''old'') \<and>
   Error env0 (bufferLogger LevelFatal 7 False) ''x'' [] ''old'' =
     (Some (Errorf ''logger ingores given level logs''), bufferLogger LevelFatal 7 False, ''old'')"
proof -
  have n: "NewLogger LevelWarn bufferWrite 7 False = Inr (bufferLogger LevelWarn 7 False)"
    by (simp add: NewLogger_def levelRange_def LevelWarn_def LevelFatal_def bufferLogger_def)
  have f: "NewLogger LevelFatal bufferWrite 7 False = Inr (bufferLogger LevelFatal 7 False)"
    by (simp add: NewLogger_def levelRange_def LevelFatal_def bufferLogger_def)
  have r: "0 \<le> LevelInfo" "LevelInfo < LevelWarn" "LevelWarn \<le> 4"
    "0 \<le> LevelDebug" "LevelDebug < LevelWarn" "0 \<le> LevelWarn" "LevelWarn < LevelFatal"
    "0 \<le> LevelError" "LevelError < LevelFatal" "LevelFatal \<le> 4"
    by (simp_all add: LevelDebug_def LevelInfo_def LevelWarn_def LevelError_def LevelFatal_def)
  show ?thesis
    using n f
      strictly_lower_level_filtered [OF r(1,2,3) n, of env0 "''x''" "[]" "''old''"]
      strictly_lower_level_filtered [OF r(4,5,3) n, of env0 "''x''" "[]" "''old''"]
      strictly_lower_level_filtered [OF r(6,7,10) f, of env0 "''x''" "[]" "''old''"]
      strictly_lower_level_filtered [OF r(8,9,10) f, of env0 "''x''" "[]" "''old''"]
    by simp
qed

text \<open>
  C5, as claimed: every requested field of the prefix, the caller too, is wrapped in square
  brackets. The caller is not: with the mask Caller alone the line has no bracket at all.
\<close>

theorem caller_not_bracketed_counterexample:
  "require (bufferLogger LevelInfo RequireCaller False) AND RequireAll \<noteq> 0 \<and>
   getCall env0 3 = ''main.go:12 (main.main)'' \<and>
   Info env0 (bufferLogger LevelInfo RequireCaller False) ''hello'' [] [] =
     (None, bufferLogger LevelInfo RequireCaller False,
      ''main.go:12 (main.main) - hello'' @ [newline]) \<and>
   CHR ''['' \<notin> set (snd (snd (Info env0 (bufferLogger LevelInfo RequireCaller False) ''hello'' [] [])))"
proof -
  have c: "getCall env0 3 = ''main.go:12 (main.main)''" by code_simp
  have m: "require (bufferLogger LevelInfo RequireCaller False) AND RequireAll \<noteq> 0"
    by (simp add: bufferLogger_def RequireAll_def RequireCaller_def RequireLevel_def
        RequireTimestamp_def)
  have s: "stats env0 (bufferLogger LevelInfo RequireCaller False) LevelInfo =
      ''main.go:12 (main.main) -''"
    apply (subst stats_layout [OF m])
    apply (simp add: c bufferLogger_def RequireCaller_def RequireLevel_def RequireTimestamp_def)
    done
  have i: "Info env0 (bufferLogger LevelInfo RequireCaller False) ''hello'' [] [] =
     (None, bufferLogger LevelInfo RequireCaller False,
      ''main.go:12 (main.main) - hello'' @ [newline])"
    by (simp add: Info_def print_passes s bufferWrite_def Sprintf_def extraArgs_def)
  show ?thesis using m by (simp add: c i newline_def)
qed

text \<open>
  C5, amended: when at least one metadata bit is set, the line written is the requested
  fields in the order Level, Timestamp, Caller, each followed by one space, then the
  separator \<^verbatim>\<open>-\<close>, a space, the formatted message and a newline; the level label and the
  timestamp are wrapped in square brackets, the caller is written bare.
\<close>

theorem print_prefix_layout:
  assumes "require l AND RequireAll \<noteq> 0" and "enabled l" and "level l \<le> lvl"
  shows "print e l lvl format attrs \<sigma> =
           (None, l,
            snd (output_w l
              ((if require l AND RequireLevel \<noteq> 0
                then ''['' @ (if colored l then getColoredLevel lvl else getRegularLevel lvl) @ ''] ''
                else []) @
               (if require l AND RequireTimestamp \<noteq> 0 then ''['' @ getTimestamp e @ ''] '' else []) @
               (if require l AND RequireCaller \<noteq> 0 then getCall e 3 @ '' '' else []) @
               ''- '' @ Sprintf format attrs @ [newline]) \<sigma>))"
  using assms(2,3) by (simp add: print_passes stats_layout [OF assms(1)])

theorem print_prefix_layout_witness:
  "print env0 (bufferLogger LevelInfo RequireAll False) LevelWarn ''hello'' [] [] =
     (None, bufferLogger LevelInfo RequireAll False,
      ''[WARN] [2024-03-09 07:05:00] main.go:12 (main.main) - hello'' @ [newline])"
proof -
  have c: "getCall env0 3 = ''main.go:12 (main.main)''" by code_simp
  have t: "getTimestamp env0 = ''2024-03-09 07:05:00''" by code_simp
  have b: "Sprintf ''hello'' [] = ''hello''" by code_simp
  have m: "require (bufferLogger LevelInfo RequireAll False) AND RequireAll \<noteq> 0"
    by (simp add: bufferLogger_def RequireAll_def RequireCaller_def RequireLevel_def
        RequireTimestamp_def)
  have g: "enabled (bufferLogger LevelInfo RequireAll False)"
    "level (bufferLogger LevelInfo RequireAll False) \<le> LevelWarn"
    by (simp_all add: bufferLogger_def LevelInfo_def LevelWarn_def)
  show ?thesis
    using print_prefix_layout [OF m g, of env0 "''hello''" "[]" "[]"]
    by (simp add: c t b)
      (simp add: bufferLogger_def bufferWrite_def RequireAll_def RequireCaller_def
        RequireLevel_def RequireTimestamp_def getRegularLevel_def LevelWarn_def LevelDebug_def
        LevelInfo_def)
qed


text \<open>
  C8. \<^verbatim>\<open>Fatal\<close> calls \<^verbatim>\<open>print\<close> with the level Fatal, drops what it returns and then
  ends the process with the exit status 0, whatever the call did: when the logger is
  disabled or the message is filtered nothing is written, otherwise the line is handed to
  the sink, and the status is 0 also when that write fails.
\<close>

theorem Fatal_exits_with_zero:
  "Fatal e l format attrs \<sigma> = Exit 0 l (snd (snd (print e l LevelFatal format attrs \<sigma>))) \<and>
   (\<not> enabled l \<longrightarrow> Fatal e l format attrs \<sigma> = Exit 0 l \<sigma>) \<and>
   (enabled l \<and> LevelFatal < level l \<longrightarrow> Fatal e l format attrs \<sigma> = Exit 0 l \<sigma>) \<and>
   (enabled l \<and> level l \<le> LevelFatal \<longrightarrow>
      Fatal e l format attrs \<sigma> =
        Exit 0 l (snd (output_w l
          (stats e l LevelFatal @ '' '' @ Sprintf format attrs @ [newline]) \<sigma>)))"
  by (simp add: Fatal_def Let_def print_passes) (simp add: print_def)

theorem Fatal_exits_with_zero_witness:
  "Fatal env0 (SetActivity (bufferLogger LevelDebug 0 False) False) ''boom'' [] ''old'' =
     Exit 0 (SetActivity (bufferLogger LevelDebug 0 False) False) ''old'' \<and>
   Fatal env0 (bufferLogger 5 0 False) ''boom'' [] ''old'' =
     Exit 0 (bufferLogger 5 0 False) ''old'' \<and>
   snd (fst (output_w closedLogger
     (stats env0 closedLogger LevelFatal @ '' '' @ Sprintf ''boom'' [] @ [newline]) ''old'')) \<noteq> None \<and>
   Fatal env0 closedLogger ''boom'' [] ''old'' = Exit 0 closedLogger ''old'' \<and>
   Fatal env0 (bufferLogger LevelDebug 0 False) ''boom'' [] ''old'' =
     Exit 0 (bufferLogger LevelDebug 0 False) (''old boom'' @ [newline])"
proof -
  have b: "Sprintf ''boom'' [] = ''boom''" by code_simp
  have s: "stats env0 (bufferLogger LevelDebug 0 False) LevelFatal = []"
    "stats env0 closedLogger LevelFatal = []"
    by (simp_all add: stats_empty)
  have k: "LevelFatal < 5" "LevelDebug \<le> LevelFatal" "LevelInfo \<le> LevelFatal"
    by (simp_all add: LevelFatal_def LevelDebug_def LevelInfo_def)
  have 1: "Fatal env0 (SetActivity (bufferLogger LevelDebug 0 False) False) ''boom'' [] ''old'' =
      Exit 0 (SetActivity (bufferLogger LevelDebug 0 False) False) ''old''"
    using Fatal_exits_with_zero [of env0 "SetActivity (bufferLogger LevelDebug 0 False) False"
        "''boom''" "[]" "''old''", THEN conjunct2, THEN conjunct1]
    by (simp add: SetActivity_def)
  have 2: "Fatal env0 (bufferLogger 5 0 False) ''boom'' [] ''old'' =
      Exit 0 (bufferLogger 5 0 False) ''old''"
    using Fatal_exits_with_zero [of env0 "bufferLogger 5 0 False" "''boom''" "[]" "''old''",
        THEN conjunct2, THEN conjunct2, THEN conjunct1]
    by (simp add: k)
  have 3: "snd (fst (output_w closedLogger
      (stats env0 closedLogger LevelFatal @ '' '' @ Sprintf ''boom'' [] @ [newline]) ''old'')) \<noteq> None"
    by (simp add: closedWrite_def)
  have 4: "Fatal env0 closedLogger ''boom'' [] ''old'' = Exit 0 closedLogger ''old''"
    using Fatal_exits_with_zero [of env0 closedLogger "''boom''" "[]" "''old''",
        THEN conjunct2, THEN conjunct2, THEN conjunct2]
    by (simp add: k closedWrite_def)
  have 5: "Fatal env0 (bufferLogger LevelDebug 0 False) ''boom'' [] ''old'' =
      Exit 0 (bufferLogger LevelDebug 0 False) (''old boom'' @ [newline])"
    using Fatal_exits_with_zero [of env0 "bufferLogger LevelDebug 0 False" "''boom''" "[]"
        "''old''", THEN conjunct2, THEN conjunct2, THEN conjunct2]
    by (simp add: k s b bufferWrite_def)
  show ?thesis by (intro conjI 1 2 3 4 5)
qed

text \<open>
  C9. A logger made with the minimum level Info, the mask Level with Timestamp and no
  colors, on which \<^verbatim>\<open>Info("value=%d", 42)\<close> is called, hands the sink one line and a
  newline after it; the line has no newline in it and matches
  \<^verbatim>\<open>^\[INFO\] \[\d{4}-\d{2}-\d{2} \d{2}:\d{2}:\d{2}\] - value=42$\<close>. The clock is taken
  to give a year from 0 to 9999, the years that the layout writes with four digits.
\<close>

theorem Info_example_line:
  assumes "NewLogger LevelInfo out (RequireLevel OR RequireTimestamp) False = Inr l"
    and "valid_time (Now e)" and "0 \<le> Year (Now e)" and "Year (Now e) \<le> 9999"
  shows "Info e l ''value=%d'' [AInt 42] \<sigma> =
           (None, l, snd (out ((''[INFO] ['' @ getTimestamp e @ ''] - value=42'') @ [newline]) \<sigma>)) \<and>
         matches info_line_pattern (''[INFO] ['' @ getTimestamp e @ ''] - value=42'') \<and>
         newline \<notin> set (''[INFO] ['' @ getTimestamp e @ ''] - value=42'')"
proof -
  from assms(1) have l: "level l = LevelInfo" "output_w l = out"
    "require l = RequireLevel OR RequireTimestamp" "enabled l" "\<not> colored l"
    by (auto simp add: NewLogger_def split: if_splits)
  have lab: "getRegularLevel LevelInfo = ''INFO''"
    by (simp add: getRegularLevel_def LevelInfo_def LevelDebug_def)
  have st: "stats e l LevelInfo = ''[INFO] ['' @ getTimestamp e @ ''] -''"
    by (subst stats_layout) (simp_all add: l level_timestamp_mask lab)
  have line: "Info e l ''value=%d'' [AInt 42] \<sigma> =
      (None, l, snd (out ((''[INFO] ['' @ getTimestamp e @ ''] - value=42'') @ [newline]) \<sigma>))"
    by (simp add: Info_def print_passes l st Sprintf_value_42)
  from assms(2-4) have "matches datetime_pattern (getTimestamp e)"
    unfolding getTimestamp_def by (rule Format_DateTime_matches)
  then have m: "matches info_line_pattern (''[INFO] ['' @ getTimestamp e @ ''] - value=42'')"
    unfolding info_line_pattern_def by (intro matches_append matches_Lit)
  from m have n: "newline \<notin> set (''[INFO] ['' @ getTimestamp e @ ''] - value=42'')"
    by (rule matches_excludes) (rule info_line_pattern_no_newline)
  from line m n show ?thesis by (intro conjI)
qed

theorem Info_example_line_witness:
  "NewLogger LevelInfo bufferWrite (RequireLevel OR RequireTimestamp) False =
     Inr (bufferLogger LevelInfo (RequireLevel OR RequireTimestamp) False) \<and>
   valid_time (Now env0) \<and> 0 \<le> Year (Now env0) \<and> Year (Now env0) \<le> 9999 \<and>
   Info env0 (bufferLogger LevelInfo (RequireLevel OR RequireTimestamp) False)
       ''value=%d'' [AInt 42] [] =
     (None, bufferLogger LevelInfo (RequireLevel OR RequireTimestamp) False,
      ''[INFO] [2024-03-09 07:05:00] - value=42'' @ [newline]) \<and>
   matches info_line_pattern ''[INFO] [2024-03-09 07:05:00] - value=42''"
proof -
  have n: "NewLogger LevelInfo bufferWrite (RequireLevel OR RequireTimestamp) False =
     Inr (bufferLogger LevelInfo (RequireLevel OR RequireTimestamp) False)"
    by (simp add: NewLogger_def levelRange_def LevelInfo_def LevelFatal_def bufferLogger_def)
  have v: "valid_time (Now env0)" "0 \<le> Year (Now env0)" "Year (Now env0) \<le> 9999"
    by (simp_all add: valid_time_def env0_def)
  have t: "getTimestamp env0 = ''2024-03-09 07:05:00''" by code_simp
  show ?thesis
    using n v Info_example_line [OF n v, of "[]"] by (simp add: t bufferWrite_def)
qed

text \<open>
  C10. \<^verbatim>\<open>Log\<close> does not validate its level: on an enabled logger every level at or above
  the minimum level, inside 0 to 4 or not, has its line handed to the sink and no error
  returned; with the Level bit in the mask a level outside 0 to 4 is written as
  \<^verbatim>\<open>[INVALID]\<close> at the head of the line, colors or not.
\<close>

theorem Log_accepts_any_level:
  assumes "enabled l" and "level l \<le> lvl"
  shows "Log e l lvl format attrs \<sigma> =
           (None, l, snd (output_w l (stats e l lvl @ '' '' @ Sprintf format attrs @ [newline]) \<sigma>)) \<and>
         ((lvl < 0 \<or> 4 < lvl) \<and> require l AND RequireLevel \<noteq> 0 \<longrightarrow>
            getColoredLevel lvl = ''INVALID'' \<and> getRegularLevel lvl = ''INVALID'' \<and>
            (\<exists>rest. stats e l lvl = ''[INVALID] '' @ rest))"
proof -
  have "\<exists>rest. stats e l lvl = ''[INVALID] '' @ rest"
    if o: "lvl < 0 \<or> 4 < lvl" and b: "require l AND RequireLevel \<noteq> 0"
  proof -
    from b have "require l AND RequireAll \<noteq> 0" by (rule level_bit_in_all)
    then show ?thesis
      by (subst stats_layout) (simp_all add: b invalid_labels [OF o])
  qed
  with assms show ?thesis by (simp add: Log_def print_passes invalid_labels)
qed

theorem Log_accepts_any_level_witness:
  "Log env0 (bufferLogger LevelInfo RequireLevel True) 100 ''late %s'' [AStr ''entry''] [] =
     (None, bufferLogger LevelInfo RequireLevel True, ''[INVALID] - late entry'' @ [newline]) \<and>
   getColoredLevel 100 = ''INVALID'' \<and> getRegularLevel 100 = ''INVALID''"
proof -
  have g: "enabled (bufferLogger LevelInfo RequireLevel True)"
    "level (bufferLogger LevelInfo RequireLevel True) \<le> 100"
    by (simp_all add: LevelInfo_def)
  have b: "Sprintf ''late %s'' [AStr ''entry''] = ''late entry''" by code_simp
  have s: "stats env0 (bufferLogger LevelInfo RequireLevel True) 100 = ''[INVALID] -''"
    by code_simp
  have r: "RequireLevel \<noteq> 0" by (simp add: RequireLevel_def)
  show ?thesis
    using Log_accepts_any_level [OF g, of env0 "''late %s''" "[AStr ''entry'']" "[]"]
    by (simp add: b s r bufferWrite_def)
qed

end
